theory Spec2Isabelle
  imports Complex_Main "HOL-Library.Word"
begin

unbundle bit_operations_syntax

section \<open>Data model\<close>

text \<open>
  The two programs \<^verbatim>\<open>mandelbrot_seq.c\<close> and \<^verbatim>\<open>mandelbrot_pth.c\<close> share their
  global variables, \<^verbatim>\<open>init\<close>, \<^verbatim>\<open>allocate_image_buffer\<close>, \<^verbatim>\<open>update_rgb_buffer\<close> and the
  body of the row loop; they differ in how the rows are traversed.

  C's \<^verbatim>\<open>int\<close> has 32 bits. Its values are modelled by \<^typ>\<open>int\<close>; \<open>fits_int\<close> says that
  a value is one of an \<^verbatim>\<open>int\<close>, and \<open>int32\<close> reduces a result to 32 bits (two's complement
  wrap-around, which is what the compiled programs do; in C itself signed overflow is
  undefined). The results that can leave 32 bits while the loop conditions hold are
  \<^verbatim>\<open>image_size * image_size\<close> in \<^verbatim>\<open>init\<close>, \<^verbatim>\<open>i_y += NUM_THREADS\<close> in \<^verbatim>\<open>iterate_y\<close> and the slot
  index \<^verbatim>\<open>i_y_max * y + x\<close> in \<^verbatim>\<open>update_rgb_buffer\<close>. The first two are reduced by \<open>int32\<close>
  where they are computed. The slot index is the mathematical value: the statements
  about one call of \<^verbatim>\<open>update_rgb_buffer\<close> assume that it is a slot of the buffer, and the
  statements about whole runs assume that \<^verbatim>\<open>image_size\<close> is at most 46340 and that
  \<^verbatim>\<open>image_size + NUM_THREADS\<close> is below \<open>2^31\<close>, and prove that then every such result fits.

  C's \<^verbatim>\<open>double\<close> is a type parameter \<open>'d\<close>, and its operations are the fields of a
  record that every function takes: nothing is assumed about rounding, so what is proved
  holds for IEEE binary64 as for any other arithmetic. Where a statement needs a fact of
  the arithmetic it is a hypothesis of that statement.
\<close>

type_synonym UC = "8 word"

record 'd double_ops =
  d_add :: "'d \<Rightarrow> 'd \<Rightarrow> 'd"
  d_sub :: "'d \<Rightarrow> 'd \<Rightarrow> 'd"
  d_mul :: "'d \<Rightarrow> 'd \<Rightarrow> 'd"
  d_div :: "'d \<Rightarrow> 'd \<Rightarrow> 'd"
  d_lt :: "'d \<Rightarrow> 'd \<Rightarrow> bool"
  d_fabs :: "'d \<Rightarrow> 'd"
  d_of_int :: "int \<Rightarrow> 'd"
  d_zero :: "'d"

text \<open>
  \<open>d_of_int\<close> is the conversion of an \<^verbatim>\<open>int\<close> operand to \<^verbatim>\<open>double\<close> (as in
  \<^verbatim>\<open>i_y * pixel_height\<close>, \<^verbatim>\<open>2 * z_x\<close>, \<^verbatim>\<open>pixel_height / 2\<close> and
  \<^verbatim>\<open>escape_radius_squared = 4\<close>); \<open>d_zero\<close> is the literal \<^verbatim>\<open>0.0\<close>.
\<close>

text \<open>One slot of \<^verbatim>\<open>image_buffer\<close>: the three bytes \<^verbatim>\<open>[0]\<close>, \<^verbatim>\<open>[1]\<close>, \<^verbatim>\<open>[2]\<close>.\<close>

type_synonym pixel = "UC \<times> UC \<times> UC"

record 'd globals =
  c_x_min :: 'd
  c_x_max :: 'd
  c_y_min :: 'd
  c_y_max :: 'd
  pixel_width :: 'd
  pixel_height :: 'd
  GLOBAL_SCHEME :: int
  image_size :: int
  image_buffer :: "pixel list"
  i_x_max :: int
  i_y_max :: int
  image_buffer_size :: int
  NUM_THREADS :: int
  PLOT_IMAGE :: int

definition iteration_max :: int where
  "iteration_max = 0xFFF"

definition fits_int :: "int \<Rightarrow> bool" where
  "fits_int x = (- (2 ^ 31) \<le> x \<and> x < 2 ^ 31)"

definition int32 :: "int \<Rightarrow> int" where
  "int32 x = signed_take_bit 31 x"

subsection \<open>Stores into the image buffer\<close>

text \<open>
  The compute functions never read \<^verbatim>\<open>image_buffer\<close>; their only effect is the sequence
  of byte stores \<^verbatim>\<open>image_buffer[slot][chan] = val\<close> they perform. Each function is
  modelled by the list of its stores in program order, and \<open>exec_stores\<close> performs a
  list of stores on a buffer. A store outside the allocated slots is undefined behaviour
  in C and the error \<open>OutOfBounds\<close> here.
\<close>

datatype store = Store (slot: int) (chan: nat) (val: UC)

datatype error = OutOfBounds

fun set_chan :: "nat \<Rightarrow> UC \<Rightarrow> pixel \<Rightarrow> pixel" where
  "set_chan k v (b0, b1, b2) =
     (if k = 0 then (v, b1, b2) else if k = 1 then (b0, v, b2) else (b0, b1, v))"


fun exec_store :: "store \<Rightarrow> pixel list \<Rightarrow> error + pixel list" where
  "exec_store (Store i k v) buf =
     (if 0 \<le> i \<and> i < int (length buf) \<and> k < 3
      then Inr (buf[nat i := set_chan k v (buf ! nat i)])
      else Inl OutOfBounds)"

fun exec_stores :: "store list \<Rightarrow> pixel list \<Rightarrow> error + pixel list" where
  "exec_stores [] buf = Inr buf"
| "exec_stores (s # ss) buf =
     (case exec_store s buf of Inl e \<Rightarrow> Inl e | Inr buf' \<Rightarrow> exec_stores ss buf')"

section \<open>The colour mapper: \<^verbatim>\<open>update_rgb_buffer\<close>\<close>

text \<open>
  \<^verbatim>\<open>
  void update_rgb_buffer(int iteration, int x, int y, int color_sch)
  {
      int first_color  = (iteration & 0xF00) >> 8;
      int second_color = (iteration & 0x0F0) >> 4;
      int third_color  = (iteration & 0x00F);
      if(iteration >= iteration_max) { first_color = 0; second_color = 0; third_color = 0; }
      else { first_color = 17*first_color; second_color = 17*second_color;
             third_color = 17*third_color; }
      if(color_sch == 0) {
          image_buffer[(i_y_max * y) + x][0] = third_color;
          image_buffer[(i_y_max * y) + x][1] = second_color;
          image_buffer[(i_y_max * y) + x][2] = first_color;
      } else if(color_sch == 1) { ... second, first, third
      } else if(color_sch == 2) { ... first, third, second
      } else if(color_sch == 3) { ... first, second, third
      } else if(color_sch == 4) { ... third, first, second
      } else                    { ... second, third, first }
  }
  \<close>
  The assignment of an \<^verbatim>\<open>int\<close> to an \<^verbatim>\<open>unsigned char\<close> is \<open>word_of_int\<close>
  (reduction modulo 256).
\<close>

definition store3 :: "int \<Rightarrow> int \<Rightarrow> int \<Rightarrow> int \<Rightarrow> store list" where
  "store3 i v0 v1 v2 =
     [Store i 0 (word_of_int v0), Store i 1 (word_of_int v1), Store i 2 (word_of_int v2)]"

definition update_rgb_buffer :: "int \<Rightarrow> int \<Rightarrow> int \<Rightarrow> int \<Rightarrow> 'd globals \<Rightarrow> store list" where
  "update_rgb_buffer iteration x y color_sch g =
     (let first_color = drop_bit 8 (iteration AND 0xF00);
          second_color = drop_bit 4 (iteration AND 0x0F0);
          third_color = iteration AND 0x00F;
          first_color = (if iteration \<ge> iteration_max then 0 else 17 * first_color);
          second_color = (if iteration \<ge> iteration_max then 0 else 17 * second_color);
          third_color = (if iteration \<ge> iteration_max then 0 else 17 * third_color);
          i = i_y_max g * y + x
      in if color_sch = 0 then store3 i third_color second_color first_color
         else if color_sch = 1 then store3 i second_color first_color third_color
         else if color_sch = 2 then store3 i first_color third_color second_color
         else if color_sch = 3 then store3 i first_color second_color third_color
         else if color_sch = 4 then store3 i third_color first_color second_color
         else store3 i second_color third_color first_color)"

section \<open>The escape-time loop\<close>

text \<open>
  The innermost loop of \<^verbatim>\<open>compute_mandelbrot\<close> and of \<^verbatim>\<open>iterate_y\<close>:
  \<^verbatim>\<open>
  z_x = 0.0; z_y = 0.0; z_x_squared = 0.0; z_y_squared = 0.0;
  for(iteration = 0;
      iteration < iteration_max && ((z_x_squared + z_y_squared) < escape_radius_squared);
      iteration++)
  {
      z_y         = 2 * z_x * z_y + c_y;
      z_x         = z_x_squared - z_y_squared + c_x;
      z_x_squared = z_x * z_x;
      z_y_squared = z_y * z_y;
  };
  \<close>
  The loop state is \<open>(z_x, z_y, z_x_squared, z_y_squared)\<close>; \<open>escape_step\<close> is the loop
  body and \<open>escape_loop\<close> the loop, which returns the final value of \<^verbatim>\<open>iteration\<close>.
\<close>

type_synonym 'd zstate = "'d \<times> 'd \<times> 'd \<times> 'd"

fun escape_step :: "'d double_ops \<Rightarrow> 'd \<Rightarrow> 'd \<Rightarrow> 'd zstate \<Rightarrow> 'd zstate" where
  "escape_step ops c_x c_y (z_x, z_y, z_x_squared, z_y_squared) =
     (let z_y = d_add ops (d_mul ops (d_mul ops (d_of_int ops 2) z_x) z_y) c_y;
          z_x = d_add ops (d_sub ops z_x_squared z_y_squared) c_x;
          z_x_squared = d_mul ops z_x z_x;
          z_y_squared = d_mul ops z_y z_y
      in (z_x, z_y, z_x_squared, z_y_squared))"

fun inside_radius :: "'d double_ops \<Rightarrow> 'd zstate \<Rightarrow> bool" where
  "inside_radius ops (z_x, z_y, z_x_squared, z_y_squared) =
     d_lt ops (d_add ops z_x_squared z_y_squared) (d_of_int ops 4)"

function escape_loop :: "'d double_ops \<Rightarrow> 'd \<Rightarrow> 'd \<Rightarrow> int \<Rightarrow> 'd zstate \<Rightarrow> int" where
  "escape_loop ops c_x c_y iteration z =
     (if iteration < iteration_max \<and> inside_radius ops z
      then escape_loop ops c_x c_y (iteration + 1) (escape_step ops c_x c_y z)
      else iteration)"
  by pat_completeness auto
termination
  by (relation "measure (\<lambda>(ops, c_x, c_y, iteration, z). nat (iteration_max - iteration))") auto

definition escape_time :: "'d double_ops \<Rightarrow> 'd \<Rightarrow> 'd \<Rightarrow> int" where
  "escape_time ops c_x c_y =
     escape_loop ops c_x c_y 0 (d_zero ops, d_zero ops, d_zero ops, d_zero ops)"

section \<open>The row body and the two row traversals\<close>

text \<open>
  The body of the row loop is the same text in both programs:
  \<^verbatim>\<open>
  c_y = c_y_min + i_y * pixel_height;
  if(fabs(c_y) < pixel_height / 2) { c_y = 0.0; };
  for(i_x = 0; i_x < i_x_max; i_x++)
  {
      c_x = c_x_min + i_x * pixel_width;
      ... the escape-time loop ...
      update_rgb_buffer(iteration, i_x, i_y, GLOBAL_SCHEME);
  };
  \<close>
\<close>

function pixel_loop :: "'d double_ops \<Rightarrow> 'd globals \<Rightarrow> int \<Rightarrow> 'd \<Rightarrow> int \<Rightarrow> store list" where
  "pixel_loop ops g i_y c_y i_x =
     (if i_x < i_x_max g
      then (let c_x = d_add ops (c_x_min g) (d_mul ops (d_of_int ops i_x) (pixel_width g));
                iteration = escape_time ops c_x c_y
            in update_rgb_buffer iteration i_x i_y (GLOBAL_SCHEME g) g
               @ pixel_loop ops g i_y c_y (i_x + 1))
      else [])"
  by pat_completeness auto
termination
  by (relation "measure (\<lambda>(ops, g, i_y, c_y, i_x). nat (i_x_max g - i_x))") auto

definition row_body :: "'d double_ops \<Rightarrow> 'd globals \<Rightarrow> int \<Rightarrow> store list" where
  "row_body ops g i_y =
     (let c_y = d_add ops (c_y_min g) (d_mul ops (d_of_int ops i_y) (pixel_height g));
          c_y = (if d_lt ops (d_fabs ops c_y) (d_div ops (pixel_height g) (d_of_int ops 2))
                 then d_zero ops else c_y)
      in pixel_loop ops g i_y c_y 0)"

text \<open>
  \<^verbatim>\<open>compute_mandelbrot\<close> of \<^verbatim>\<open>mandelbrot_seq.c\<close>:
  \<^verbatim>\<open>for(i_y = 0; i_y < i_y_max; i_y++) { ... row body ... }\<close>
\<close>

function seq_rows :: "'d double_ops \<Rightarrow> 'd globals \<Rightarrow> int \<Rightarrow> store list" where
  "seq_rows ops g i_y =
     (if i_y < i_y_max g then row_body ops g i_y @ seq_rows ops g (i_y + 1) else [])"
  by pat_completeness auto
termination
  by (relation "measure (\<lambda>(ops, g, i_y). nat (i_y_max g - i_y))") auto

definition compute_mandelbrot :: "'d double_ops \<Rightarrow> 'd globals \<Rightarrow> store list" where
  "compute_mandelbrot ops g = seq_rows ops g 0"

text \<open>
  \<^verbatim>\<open>iterate_y\<close> of \<^verbatim>\<open>mandelbrot_pth.c\<close>, the function every worker thread runs with its
  number \<^verbatim>\<open>st\<close>:
  \<^verbatim>\<open>for(i_y = st - 1; i_y < i_y_max; i_y += NUM_THREADS) { ... row body ... }\<close>
  With \<^verbatim>\<open>NUM_THREADS <= 0\<close> the loop would not leave a row below \<^verbatim>\<open>i_y_max\<close>; not
  returning is the value \<open>None\<close>. The sum \<^verbatim>\<open>i_y + NUM_THREADS\<close> is an \<^verbatim>\<open>int\<close>.
\<close>

partial_function (option) pth_rows :: "'d double_ops \<Rightarrow> 'd globals \<Rightarrow> int \<Rightarrow> store list option" where
  "pth_rows ops g i_y =
     (if i_y < i_y_max g
      then Option.bind (pth_rows ops g (int32 (i_y + NUM_THREADS g)))
             (\<lambda>rest. Some (row_body ops g i_y @ rest))
      else Some [])"

definition iterate_y :: "'d double_ops \<Rightarrow> int \<Rightarrow> 'd globals \<Rightarrow> store list option" where
  "iterate_y ops st g = pth_rows ops g (st - 1)"

subsection \<open>Threads\<close>

text \<open>
  \<^verbatim>\<open>main\<close> of \<^verbatim>\<open>mandelbrot_pth.c\<close> creates the threads \<^verbatim>\<open>iterate_y(1)\<close>, ...,
  \<^verbatim>\<open>iterate_y(NUM_THREADS)\<close> and joins them. The threads share only \<^verbatim>\<open>image_buffer\<close>,
  which they write and never read, so a run of the threads is a sequence of stores in
  which the stores of each thread appear in that thread's program order:
  \<open>interleaves xss zs\<close> says that \<open>zs\<close> is such a merge of the lists \<open>xss\<close>.
\<close>

fun interleaves :: "'a list list \<Rightarrow> 'a list \<Rightarrow> bool" where
  "interleaves xss [] = (\<forall>xs \<in> set xss. xs = [])"
| "interleaves xss (z # zs) =
     (\<exists>i \<in> set [0..<length xss].
        xss ! i \<noteq> [] \<and> hd (xss ! i) = z \<and> interleaves (xss[i := tl (xss ! i)]) zs)"

definition pth_workers :: "'d double_ops \<Rightarrow> 'd globals \<Rightarrow> store list list option" where
  "pth_workers ops g = those (map (\<lambda>st. iterate_y ops st g) [1..NUM_THREADS g])"

section \<open>The programs\<close>

text \<open>
  \<^verbatim>\<open>sscanf(argv[k], "%lf", &v)\<close> and \<^verbatim>\<open>sscanf(argv[k], "%d", &v)\<close> are parameters: a scanner
  returns the converted value, or \<open>None\<close> when nothing is converted and the variable keeps
  its value.
\<close>

record 'd scanners =
  scan_lf :: "string \<Rightarrow> 'd option"
  scan_d :: "string \<Rightarrow> int option"

definition sscanf_into :: "(string \<Rightarrow> 'a option) \<Rightarrow> string \<Rightarrow> 'a \<Rightarrow> 'a" where
  "sscanf_into scan s old = (case scan s of None \<Rightarrow> old | Some v \<Rightarrow> v)"

text \<open>The globals as the C initialisers leave them.\<close>

definition initial_globals :: "'d double_ops \<Rightarrow> 'd globals" where
  "initial_globals ops =
     \<lparr>c_x_min = d_zero ops, c_x_max = d_zero ops, c_y_min = d_zero ops, c_y_max = d_zero ops,
      pixel_width = d_zero ops, pixel_height = d_zero ops, GLOBAL_SCHEME = 0, image_size = 0,
      image_buffer = [], i_x_max = 0, i_y_max = 0, image_buffer_size = 0,
      NUM_THREADS = 4, PLOT_IMAGE = 0\<rparr>"

text \<open>
  The result of \<^verbatim>\<open>init\<close>: the process has exited (with the arguments of its \<^verbatim>\<open>printf\<close>
  calls and the exit status), has crashed, or goes on with the globals set.
\<close>

datatype 'd init_result =
    Exited "string list" int
  | Crashed
  | Initialised "'d globals"

definition usage_seq :: "string list" where
  "usage_seq =
     [''usage:\<newline>./mandelbrot_seq c_x_min c_x_max c_y_min c_y_max image_size color_scheme(optional default=0)\<newline>'',
      ''examples with image_size = 11500:\<newline>'',
      ''    Full Picture:         ./mandelbrot_seq -2.5 1.5 -2.0 2.0 11500 0\<newline>'',
      ''    Seahorse Valley:      ./mandelbrot_seq -0.8 -0.7 0.05 0.15 11500 3\<newline>'',
      ''    Elephant Valley:      ./mandelbrot_seq 0.175 0.375 -0.1 0.1 11500 5\<newline>'',
      ''    Triple Spiral Valley: ./mandelbrot_seq -0.188 -0.012 0.554 0.754 11500\<newline>'']"

definition usage_pth :: "string list" where
  "usage_pth =
     [''usage:\<newline>./mandelbrot_pth c_x_min c_x_max c_y_min c_y_max image_size color_scheme(optional default=0) ...\<newline>'',
      ''examples with image_size = 11500:\<newline>'',
      ''    Full Picture:         ./mandelbrot_pth -2.5 1.5 -2.0 2.0 11500 0\<newline>'',
      ''    Seahorse Valley:      ./mandelbrot_pth -0.8 -0.7 0.05 0.15 11500 3\<newline>'',
      ''    Elephant Valley:      ./mandelbrot_pth 0.175 0.375 -0.1 0.1 11500 5 -nt 12\<newline>'',
      ''    Triple Spiral Valley: ./mandelbrot_pth -0.188 -0.012 0.554 0.754 11500 -nt 8\<newline>'']"

text \<open>
  The tail of \<^verbatim>\<open>init\<close>, the same in both programs:
  \<^verbatim>\<open>
  i_x_max = image_size; i_y_max = image_size; image_buffer_size = image_size * image_size;
  pixel_width  = (c_x_max - c_x_min) / i_x_max;
  pixel_height = (c_y_max - c_y_min) / i_y_max;
  \<close>
  The product \<^verbatim>\<open>image_size * image_size\<close> is an \<^verbatim>\<open>int\<close>.
\<close>

definition derive_sizes :: "'d double_ops \<Rightarrow> 'd globals \<Rightarrow> 'd globals" where
  "derive_sizes ops g =
     (let g = g\<lparr>i_x_max := image_size g\<rparr>;
          g = g\<lparr>i_y_max := image_size g\<rparr>;
          g = g\<lparr>image_buffer_size := int32 (image_size g * image_size g)\<rparr>;
          g = g\<lparr>pixel_width := d_div ops (d_sub ops (c_x_max g) (c_x_min g)) (d_of_int ops (i_x_max g))\<rparr>;
          g = g\<lparr>pixel_height := d_div ops (d_sub ops (c_y_max g) (c_y_min g)) (d_of_int ops (i_y_max g))\<rparr>
      in g)"

definition scan_bounds :: "'d scanners \<Rightarrow> string list \<Rightarrow> 'd globals \<Rightarrow> 'd globals" where
  "scan_bounds sc argv g =
     (let g = g\<lparr>c_x_min := sscanf_into (scan_lf sc) (argv ! 1) (c_x_min g)\<rparr>;
          g = g\<lparr>c_x_max := sscanf_into (scan_lf sc) (argv ! 2) (c_x_max g)\<rparr>;
          g = g\<lparr>c_y_min := sscanf_into (scan_lf sc) (argv ! 3) (c_y_min g)\<rparr>;
          g = g\<lparr>c_y_max := sscanf_into (scan_lf sc) (argv ! 4) (c_y_max g)\<rparr>;
          g = g\<lparr>image_size := sscanf_into (scan_d sc) (argv ! 5) (image_size g)\<rparr>
      in g)"

text \<open>
  \<^verbatim>\<open>init\<close> of \<^verbatim>\<open>mandelbrot_seq.c\<close>. \<^verbatim>\<open>argc\<close> is the length of \<^verbatim>\<open>argv\<close>; \<^verbatim>\<open>exit(0)\<close> after
  the usage message is the result \<open>Exited usage_seq 0\<close>.
  \<^verbatim>\<open>
  if(argc < 6) { printf(usage ...); exit(0); }
  else { sscanf(argv[1..4], "%lf", ...); sscanf(argv[5], "%d", &image_size);
         if(argc == 7) { sscanf(argv[6], "%d", &GLOBAL_SCHEME); }
         ... }
  \<close>
\<close>

definition init_seq :: "'d scanners \<Rightarrow> 'd double_ops \<Rightarrow> string list \<Rightarrow> 'd globals \<Rightarrow> 'd init_result" where
  "init_seq sc ops argv g =
     (let argc = int (length argv)
      in if argc < 6 then Exited usage_seq 0
         else (let g = scan_bounds sc argv g;
                   g = (if argc = 7
                        then g\<lparr>GLOBAL_SCHEME := sscanf_into (scan_d sc) (argv ! 6) (GLOBAL_SCHEME g)\<rparr>
                        else g)
               in Initialised (derive_sizes ops g)))"

text \<open>
  \<^verbatim>\<open>init\<close> of \<^verbatim>\<open>mandelbrot_pth.c\<close>:
  \<^verbatim>\<open>
  if(argc >= 7) {
      if(strcmp(argv[6], "-nt")==0) { sscanf(argv[7], "%d", &NUM_THREADS); }
      else { sscanf(argv[6], "%d", &GLOBAL_SCHEME);
             if(argc > 7 && strcmp(argv[7], "-nt")==0) { sscanf(argv[8], "%d", &NUM_THREADS); } }
  }
  \<close>
  \<^verbatim>\<open>argv[argc]\<close> is the null pointer, and scanning it is the result \<open>Crashed\<close>.
\<close>

definition init_pth :: "'d scanners \<Rightarrow> 'd double_ops \<Rightarrow> string list \<Rightarrow> 'd globals \<Rightarrow> 'd init_result" where
  "init_pth sc ops argv g =
     (let argc = int (length argv)
      in if argc < 6 then Exited usage_pth 0
         else (let g = scan_bounds sc argv g
               in if argc \<ge> 7
                  then (if argv ! 6 = ''-nt''
                        then (if argc = 7 then Crashed
                              else Initialised (derive_sizes ops
                                (g\<lparr>NUM_THREADS := sscanf_into (scan_d sc) (argv ! 7) (NUM_THREADS g)\<rparr>)))
                        else (let g = g\<lparr>GLOBAL_SCHEME := sscanf_into (scan_d sc) (argv ! 6) (GLOBAL_SCHEME g)\<rparr>
                              in if argc > 7 \<and> argv ! 7 = ''-nt''
                                 then (if argc = 8 then Crashed
                                       else Initialised (derive_sizes ops
                                         (g\<lparr>NUM_THREADS := sscanf_into (scan_d sc) (argv ! 8) (NUM_THREADS g)\<rparr>)))
                                 else Initialised (derive_sizes ops g)))
                  else Initialised (derive_sizes ops g)))"

text \<open>
  \<^verbatim>\<open>allocate_image_buffer\<close> allocates \<^verbatim>\<open>image_buffer_size\<close> slots of three bytes. \<^verbatim>\<open>malloc\<close>
  does not initialise them: their contents are the parameter \<open>fresh\<close>. (A failing
  \<^verbatim>\<open>malloc\<close> is not modelled.)
\<close>

definition allocate_image_buffer :: "(nat \<Rightarrow> pixel) \<Rightarrow> 'd globals \<Rightarrow> 'd globals" where
  "allocate_image_buffer fresh g =
     g\<lparr>image_buffer := map fresh [0..<nat (image_buffer_size g)]\<rparr>"

text \<open>
  \<^verbatim>\<open>write_to_file\<close> writes the header \<^verbatim>\<open>P6\<close>, a comment, \<^verbatim>\<open>i_x_max\<close>, \<^verbatim>\<open>i_y_max\<close> and 255, and
  then the three bytes of every slot in the order \<^verbatim>\<open>[0]\<close>, \<^verbatim>\<open>[1]\<close>, \<^verbatim>\<open>[2]\<close>
  (\<^verbatim>\<open>fwrite(image_buffer[i], 1, 3, file)\<close>): in a P6 file these are the red, the green and
  the blue sample of the pixel.
\<close>

datatype ppm = PPM (width: int) (height: int) (maxval: int) (samples: "UC list")

definition write_to_file :: "'d globals \<Rightarrow> ppm" where
  "write_to_file g =
     PPM (i_x_max g) (i_y_max g) 255
       (concat (map (\<lambda>(b0, b1, b2). [b0, b1, b2])
          (take (nat (image_buffer_size g)) (image_buffer g))))"

definition rgb_of :: "pixel \<Rightarrow> int \<times> int \<times> int" where
  "rgb_of p = (case p of (b0, b1, b2) \<Rightarrow> (uint b0, uint b1, uint b2))"

text \<open>
  What a run of a program does: what it prints, its exit status, whether the image
  buffer was allocated, the stores performed, the buffer at the end, and the file written
  (if any). \<open>Undefined\<close> is a run that crashes or stores out of bounds.
\<close>

datatype outcome =
    Outcome (printed: "string list") (exit_status: int) (allocated: bool)
      (performed: "store list") (final_buffer: "pixel list") (written: "ppm option")
  | Undefined

definition finish :: "'d globals \<Rightarrow> store list \<Rightarrow> outcome" where
  "finish g ws =
     (case exec_stores ws (image_buffer g) of
        Inl e \<Rightarrow> Undefined
      | Inr buf \<Rightarrow>
          Outcome [] 0 True ws buf
            (if PLOT_IMAGE g \<noteq> 0 then Some (write_to_file (g\<lparr>image_buffer := buf\<rparr>)) else None))"

text \<open>
  \<^verbatim>\<open>main\<close> of \<^verbatim>\<open>mandelbrot_seq.c\<close>:
  \<^verbatim>\<open>init(argc, argv); allocate_image_buffer(); compute_mandelbrot();
  if(PLOT_IMAGE) { write_to_file(); } return 0;\<close>
\<close>

definition main_seq :: "'d scanners \<Rightarrow> 'd double_ops \<Rightarrow> (nat \<Rightarrow> pixel) \<Rightarrow> string list \<Rightarrow> outcome" where
  "main_seq sc ops fresh argv =
     (case init_seq sc ops argv (initial_globals ops) of
        Exited out st \<Rightarrow> Outcome out st False [] [] None
      | Crashed \<Rightarrow> Undefined
      | Initialised g \<Rightarrow>
          (let g = allocate_image_buffer fresh g
           in finish g (compute_mandelbrot ops g)))"

text \<open>
  \<^verbatim>\<open>main\<close> of \<^verbatim>\<open>mandelbrot_pth.c\<close>:
  \<^verbatim>\<open>
  init(argc, argv);
  pthread_t thread[NUM_THREADS+1];
  allocate_image_buffer();
  for(i=1; i<=NUM_THREADS; i++) { ... *aux = i; pthread_create(&thread[i], 0, iterate_y, aux) ... }
  for(i=1; i<=NUM_THREADS; i++) { pthread_join(thread[i], NULL); }
  if(PLOT_IMAGE) { write_to_file(); } return 0;
  \<close>
  The run depends on the schedule, the parameter \<open>sched\<close>: the sequence of stores as the
  threads perform them. The result is \<open>None\<close> when \<open>sched\<close> is not a merge of the threads'
  stores, that is, not a schedule of this run. (A failing \<^verbatim>\<open>malloc\<close> or
  \<^verbatim>\<open>pthread_create\<close> is not modelled.)
\<close>

definition main_pth ::
  "'d scanners \<Rightarrow> 'd double_ops \<Rightarrow> (nat \<Rightarrow> pixel) \<Rightarrow> store list \<Rightarrow> string list \<Rightarrow> outcome option" where
  "main_pth sc ops fresh sched argv =
     (case init_pth sc ops argv (initial_globals ops) of
        Exited out st \<Rightarrow> Some (Outcome out st False [] [] None)
      | Crashed \<Rightarrow> Some Undefined
      | Initialised g \<Rightarrow>
          (if NUM_THREADS g + 1 \<le> 0 then Some Undefined
           else (let g = allocate_image_buffer fresh g
                 in case pth_workers ops g of
                      None \<Rightarrow> Some Undefined
                    | Some traces \<Rightarrow>
                        if interleaves traces sched then Some (finish g sched) else None)))"

section \<open>Definitions that follow the specification\<close>

text \<open>
  The colour mapper of the specification (section 4.3): the three base channels
  \<open>a = ((n >> 8) & 0xF) * 17\<close>, \<open>b = ((n >> 4) & 0xF) * 17\<close>, \<open>c = (n & 0xF) * 17\<close>, and the
  table that assigns them to (R, G, B) for each scheme. \<open>amended_table\<close> is the table
  with the row of scheme 0 replaced by (c, b, a). \<open>bgr_of\<close> reads a slot in the reverse
  of the file order.
\<close>

definition spec_channels :: "int \<Rightarrow> int \<times> int \<times> int" where
  "spec_channels n = ((drop_bit 8 n AND 0xF) * 17, (drop_bit 4 n AND 0xF) * 17, (n AND 0xF) * 17)"

definition spec_table :: "int \<Rightarrow> int \<times> int \<times> int \<Rightarrow> int \<times> int \<times> int" where
  "spec_table s abc = (case abc of (a, b, c) \<Rightarrow>
     if s = 0 then (a, b, c)
     else if s = 1 then (b, a, c)
     else if s = 2 then (a, c, b)
     else if s = 3 then (a, b, c)
     else if s = 4 then (c, a, b)
     else (b, c, a))"

definition amended_table :: "int \<Rightarrow> int \<times> int \<times> int \<Rightarrow> int \<times> int \<times> int" where
  "amended_table s abc = (case abc of (a, b, c) \<Rightarrow>
     if s = 0 then (c, b, a) else spec_table s (a, b, c))"

definition bgr_of :: "pixel \<Rightarrow> int \<times> int \<times> int" where
  "bgr_of p = (case p of (b0, b1, b2) \<Rightarrow> (uint b2, uint b1, uint b0))"

definition pixel_of_rgb :: "int \<times> int \<times> int \<Rightarrow> pixel" where
  "pixel_of_rgb t = (case t of (r, g, b) \<Rightarrow> (word_of_int r, word_of_int g, word_of_int b))"

text \<open>
  The escape-time evaluator of the specification (section 4.2): iterate \<open>z \<leftarrow> z\<^sup>2 + c\<close> from
  \<open>z = 0 + 0i\<close>, keeping \<open>zx\<^sup>2\<close> and \<open>zy\<^sup>2\<close>, with \<open>zy_new = 2*zx*zy + cy\<close> computed before
  \<open>zx\<close> is overwritten. \<open>orbit ops cx cy k\<close> is the state after \<open>k\<close> iterations.
\<close>

fun spec_step :: "'d double_ops \<Rightarrow> 'd \<Rightarrow> 'd \<Rightarrow> 'd zstate \<Rightarrow> 'd zstate" where
  "spec_step ops cx cy (zx, zy, zx2, zy2) =
     (let zy_new = d_add ops (d_mul ops (d_mul ops (d_of_int ops 2) zx) zy) cy;
          zx_new = d_add ops (d_sub ops zx2 zy2) cx
      in (zx_new, zy_new, d_mul ops zx_new zx_new, d_mul ops zy_new zy_new))"

primrec orbit :: "'d double_ops \<Rightarrow> 'd \<Rightarrow> 'd \<Rightarrow> nat \<Rightarrow> 'd zstate" where
  "orbit ops cx cy 0 = (d_zero ops, d_zero ops, d_zero ops, d_zero ops)"
| "orbit ops cx cy (Suc k) = spec_step ops cx cy (orbit ops cx cy k)"

text \<open>
  A fact of IEEE binary64 (rounding to nearest) that one statement below takes as a
  hypothesis: the integers from 0 to 8 convert exactly, \<^verbatim>\<open>0.0\<close> is the conversion of 0,
  and on such integers sums, products, comparisons and the differences \<open>i - j\<close> with
  \<open>j \<le> i\<close> are exact (every result is an integer from 0 to 64, and \<open>i - i\<close> is \<^verbatim>\<open>0.0\<close>).
  Negative operands are left out: \<^verbatim>\<open>(-1.0) * 0.0\<close> is \<^verbatim>\<open>-0.0\<close>, which is not \<^verbatim>\<open>0.0\<close>.
\<close>

definition exact_on_small_naturals :: "'d double_ops \<Rightarrow> bool" where
  "exact_on_small_naturals ops =
     (d_zero ops = d_of_int ops 0 \<and>
      (\<forall>i j. 0 \<le> i \<and> i \<le> 8 \<and> 0 \<le> j \<and> j \<le> 8 \<longrightarrow>
         d_add ops (d_of_int ops i) (d_of_int ops j) = d_of_int ops (i + j) \<and>
         (j \<le> i \<longrightarrow> d_sub ops (d_of_int ops i) (d_of_int ops j) = d_of_int ops (i - j)) \<and>
         d_mul ops (d_of_int ops i) (d_of_int ops j) = d_of_int ops (i * j) \<and>
         d_lt ops (d_of_int ops i) (d_of_int ops j) = (i < j)))"

text \<open>
  The coordinate mapper of the specification (section 4.1): the plane point of a pixel,
  with \<open>cy\<close> snapped to \<^verbatim>\<open>0.0\<close> when \<open>|cy| < pixel_height / 2\<close>, and the stores of one
  pixel (coordinate mapper, then escape-time evaluator, then colour mapper).
\<close>

definition plane_point :: "'d double_ops \<Rightarrow> 'd globals \<Rightarrow> int \<Rightarrow> int \<Rightarrow> 'd \<times> 'd" where
  "plane_point ops g ix iy =
     (let cx = d_add ops (c_x_min g) (d_mul ops (d_of_int ops ix) (pixel_width g));
          cy = d_add ops (c_y_min g) (d_mul ops (d_of_int ops iy) (pixel_height g))
      in (cx, if d_lt ops (d_fabs ops cy) (d_div ops (pixel_height g) (d_of_int ops 2))
              then d_zero ops else cy))"

definition pixel_stores :: "'d double_ops \<Rightarrow> 'd globals \<Rightarrow> int \<Rightarrow> int \<Rightarrow> store list" where
  "pixel_stores ops g ix iy =
     (case plane_point ops g ix iy of
        (cx, cy) \<Rightarrow> update_rgb_buffer (escape_time ops cx cy) ix iy (GLOBAL_SCHEME g) g)"



text \<open>
  What \<^verbatim>\<open>init\<close> and \<^verbatim>\<open>allocate_image_buffer\<close> establish, and the compute functions rely on.
\<close>

definition initialised :: "'d globals \<Rightarrow> bool" where
  "initialised g =
     (i_x_max g = image_size g \<and> i_y_max g = image_size g \<and>
      image_buffer_size g = int32 (image_size g * image_size g) \<and>
      length (image_buffer g) = nat (image_buffer_size g))"


text \<open>
  Properties of a set of stores: every store is inside the buffer, and no two different
  stores go to the same byte. \<open>store_key\<close> is the byte a store goes to.
\<close>

definition store_key :: "store \<Rightarrow> int \<times> nat" where
  "store_key s = (slot s, chan s)"

definition in_bounds :: "pixel list \<Rightarrow> store set \<Rightarrow> bool" where
  "in_bounds buf S = (\<forall>s \<in> S. 0 \<le> slot s \<and> slot s < int (length buf) \<and> chan s < 3)"


subsection \<open>Concrete inputs\<close>

text \<open>
  Exact real arithmetic as an instance of the operations, a two-by-two image over the
  square with corners \<open>(-2, -2)\<close> and \<open>(2, 2)\<close>, computed by two threads, and scanners
  that convert nothing.
\<close>

definition real_ops :: "real double_ops" where
  "real_ops = \<lparr>d_add = (+), d_sub = (-), d_mul = (*), d_div = (/), d_lt = (<),
     d_fabs = abs, d_of_int = of_int, d_zero = 0\<rparr>"

definition small_image :: "real globals" where
  "small_image = \<lparr>c_x_min = - 2, c_x_max = 2, c_y_min = - 2, c_y_max = 2,
     pixel_width = 2, pixel_height = 2, GLOBAL_SCHEME = 0, image_size = 2,
     image_buffer = [(9, 9, 9), (9, 9, 9), (9, 9, 9), (9, 9, 9)],
     i_x_max = 2, i_y_max = 2, image_buffer_size = 4, NUM_THREADS = 2, PLOT_IMAGE = 0\<rparr>"

definition no_scanners :: "real scanners" where
  "no_scanners = \<lparr>scan_lf = (\<lambda>s. None), scan_d = (\<lambda>s. None)\<rparr>"

section \<open>The colour mapper\<close>

lemma exec_store3:
  "0 \<le> i \<Longrightarrow> i < int (length buf) \<Longrightarrow>
   exec_stores (store3 i v0 v1 v2) buf = Inr (buf[nat i := (word_of_int v0, word_of_int v1, word_of_int v2)])"
  by (cases "buf ! nat i") (simp add: store3_def)

lemma nibble_bounds: "0 \<le> (k::int) AND 0xF" "(k::int) AND 0xF \<le> 15"
  using AND_upper2[of 15 k] by simp_all

lemma drop_bit_masks:
  "drop_bit 8 (n AND 0xF00) = drop_bit 8 n AND (0xF::int)"
  "drop_bit 4 (n AND 0x0F0) = drop_bit 4 n AND (0xF::int)"
  by (simp_all add: drop_bit_and)

lemma uint_scaled_nibble: "uint (word_of_int (17 * (k AND 0xF)) :: UC) = 17 * (k AND 0xF)"
proof -
  have "0 \<le> 17 * (k AND 0xF)" "17 * (k AND 0xF) < 256"
    using nibble_bounds[of k] by linarith+
  then have "(17 * (k AND 0xF)) mod 2 ^ LENGTH(8) = 17 * (k AND 0xF)"
    by simp
  then show ?thesis by (simp only: uint_word_of_int)
qed

lemma update_rgb_buffer_scaled:
  "iteration < iteration_max \<Longrightarrow>
   update_rgb_buffer iteration x y color_sch g =
     (let a = 17 * (drop_bit 8 iteration AND 0xF); b = 17 * (drop_bit 4 iteration AND 0xF);
          c = 17 * (iteration AND 0xF); i = i_y_max g * y + x
      in if color_sch = 0 then store3 i c b a
         else if color_sch = 1 then store3 i b a c
         else if color_sch = 2 then store3 i a c b
         else if color_sch = 3 then store3 i a b c
         else if color_sch = 4 then store3 i c a b
         else store3 i b c a)"
  by (simp add: update_rgb_buffer_def Let_def drop_bit_masks)

lemma update_rgb_buffer_black:
  "iteration_max \<le> iteration \<Longrightarrow>
   update_rgb_buffer iteration x y color_sch g = store3 (i_y_max g * y + x) 0 0 0"
  by (simp add: update_rgb_buffer_def Let_def)

text \<open>
  Claim C3, as amended. For an iteration count \<open>0 \<le> n < 4095\<close>, a scheme \<open>s\<close> in
  \<open>{0, ..., 5}\<close> and a pixel whose slot \<open>i_y_max * y + x\<close> is allocated, \<^verbatim>\<open>update_rgb_buffer\<close>
  replaces that slot, and nothing else, by the triple that the table assigns to
  \<open>(a, b, c) = (((n >> 8) & 0xF) * 17, ((n >> 4) & 0xF) * 17, (n & 0xF) * 17)\<close>, read in
  the order (R, G, B) of the file. The table is the specification's for the schemes 1 to
  5; for scheme 0 it is R = c, G = b, B = a.
\<close>

theorem update_rgb_buffer_table:
  assumes "0 \<le> n" "n < 4095" "s \<in> {0, 1, 2, 3, 4, 5}"
    and "0 \<le> i_y_max g * y + x" "i_y_max g * y + x < int (length buf)"
  shows "exec_stores (update_rgb_buffer n x y s g) buf =
           Inr (buf[nat (i_y_max g * y + x) := pixel_of_rgb (amended_table s (spec_channels n))])
         \<and> rgb_of (pixel_of_rgb (amended_table s (spec_channels n))) =
             amended_table s (spec_channels n)"
proof -
  have lt: "n < iteration_max" using assms(2) by (simp add: iteration_max_def)
  have "exec_stores (update_rgb_buffer n x y s g) buf =
           Inr (buf[nat (i_y_max g * y + x) := pixel_of_rgb (amended_table s (spec_channels n))])"
    using assms(3-5)
    by (auto simp add: update_rgb_buffer_scaled[OF lt] Let_def exec_store3 pixel_of_rgb_def
        amended_table_def spec_table_def spec_channels_def mult.commute)
  moreover have "rgb_of (pixel_of_rgb (amended_table s (spec_channels n))) =
             amended_table s (spec_channels n)"
    using uint_scaled_nibble[of n] uint_scaled_nibble[of "drop_bit 8 n"]
      uint_scaled_nibble[of "drop_bit 4 n"]
    by (simp add: rgb_of_def pixel_of_rgb_def amended_table_def spec_table_def
        spec_channels_def mult.commute)
  ultimately show ?thesis by simp
qed

theorem update_rgb_buffer_table_witness:
  "(0::int) \<le> 291 \<and> (291::int) < 4095 \<and> (0::int) \<in> {0, 1, 2, 3, 4, 5}
   \<and> 0 \<le> i_y_max small_image * 0 + 0
   \<and> i_y_max small_image * 0 + 0 < int (length (image_buffer small_image))
   \<and> exec_stores (update_rgb_buffer 291 0 0 0 small_image) (image_buffer small_image) =
        Inr [(51, 34, 17), (9, 9, 9), (9, 9, 9), (9, 9, 9)]
   \<and> rgb_of (51, 34, 17) = (51, 34, 17)
   \<and> spec_channels 291 = (17, 34, 51)"
  using update_rgb_buffer_table[of 291 0 small_image 0 0 "image_buffer small_image"]
  by (simp add: small_image_def amended_table_def spec_table_def spec_channels_def
      pixel_of_rgb_def rgb_of_def)

text \<open>
  The claim as the specification states it (scheme 0 assigns R = a, G = b, B = c) fails
  at \<open>n = 1\<close>, where \<open>(a, b, c) = (0, 0, 17)\<close>: scheme 0 stores the bytes \<open>(17, 0, 0)\<close>.
  Reading the three bytes in the reverse order does not save the table either: then
  scheme 3, which stores \<open>(0, 0, 17)\<close>, departs from its row.
\<close>

theorem scheme0_table_counterexample:
  "exec_stores (update_rgb_buffer 1 0 0 0 small_image) (image_buffer small_image) = Inr [(17, 0, 0), (9, 9, 9), (9, 9, 9), (9, 9, 9)]
   \<and> rgb_of (17, 0, 0) \<noteq> spec_table 0 (spec_channels 1)
   \<and> exec_stores (update_rgb_buffer 1 0 0 3 small_image) (image_buffer small_image) = Inr [(0, 0, 17), (9, 9, 9), (9, 9, 9), (9, 9, 9)]
   \<and> bgr_of (0, 0, 17) \<noteq> spec_table 3 (spec_channels 1)"
  by (simp add: update_rgb_buffer_def iteration_max_def store3_def small_image_def
      rgb_of_def bgr_of_def spec_table_def spec_channels_def)

lemma scaled_nibble_inj:
  "((word_of_int (17 * (j AND 0xF)) :: UC) = word_of_int (17 * (k AND 0xF))) = (j AND 0xF = k AND (0xF::int))"
proof
  assume "(word_of_int (17 * (j AND 0xF)) :: UC) = word_of_int (17 * (k AND 0xF))"
  then have "uint (word_of_int (17 * (j AND 0xF)) :: UC) = uint (word_of_int (17 * (k AND 0xF)) :: UC)"
    by (rule arg_cong)
  then show "j AND 0xF = k AND 0xF"
    by (simp only: uint_scaled_nibble)
next
  assume "j AND 0xF = k AND 0xF"
  then show "(word_of_int (17 * (j AND 0xF)) :: UC) = word_of_int (17 * (k AND 0xF))"
    by (rule arg_cong)
qed

lemma list_update_eq_iff:
  "i < length xs \<Longrightarrow> (xs[i := a] = xs[i := b]) = (a = b)"
  by (metis nth_list_update_eq)

text \<open>
  Claim C4, as amended. For every iteration count and every pixel whose slot is
  allocated, scheme 0 stores the triple of scheme 3 with its first and third byte
  exchanged; the two schemes store the same triple exactly when the iteration count is at
  least \<open>iteration_max\<close> or its nibbles \<open>(n >> 8) & 0xF\<close> and \<open>n & 0xF\<close> are equal.
\<close>

theorem scheme0_mirrors_scheme3:
  assumes "0 \<le> i_y_max g * y + x" "i_y_max g * y + x < int (length buf)"
  shows "\<exists>b0 b1 b2.
           exec_stores (update_rgb_buffer n x y 3 g) buf =
             Inr (buf[nat (i_y_max g * y + x) := (b0, b1, b2)])
         \<and> exec_stores (update_rgb_buffer n x y 0 g) buf =
             Inr (buf[nat (i_y_max g * y + x) := (b2, b1, b0)])
         \<and> ((exec_stores (update_rgb_buffer n x y 0 g) buf =
              exec_stores (update_rgb_buffer n x y 3 g) buf)
            = (iteration_max \<le> n \<or> drop_bit 8 n AND 0xF = n AND 0xF))"
proof (cases "iteration_max \<le> n")
  case True
  have "exec_stores (update_rgb_buffer n x y 3 g) buf =
          Inr (buf[nat (i_y_max g * y + x) := (0, 0, 0)])"
       "exec_stores (update_rgb_buffer n x y 0 g) buf =
          Inr (buf[nat (i_y_max g * y + x) := (0, 0, 0)])"
    using assms True by (simp_all add: update_rgb_buffer_black exec_store3)
  with True show ?thesis by (intro exI[of _ 0]) simp
next
  case False
  then have lt: "n < iteration_max" by simp
  define A :: UC where "A = word_of_int (17 * (drop_bit 8 n AND 0xF))"
  define B :: UC where "B = word_of_int (17 * (drop_bit 4 n AND 0xF))"
  define C :: UC where "C = word_of_int (17 * (n AND 0xF))"
  have len: "nat (i_y_max g * y + x) < length buf" using assms by simp
  have e3: "exec_stores (update_rgb_buffer n x y 3 g) buf =
          Inr (buf[nat (i_y_max g * y + x) := (A, B, C)])"
    using assms by (simp add: update_rgb_buffer_scaled[OF lt] Let_def exec_store3 A_def B_def C_def)
  have e0: "exec_stores (update_rgb_buffer n x y 0 g) buf =
          Inr (buf[nat (i_y_max g * y + x) := (C, B, A)])"
    using assms by (simp add: update_rgb_buffer_scaled[OF lt] Let_def exec_store3 A_def B_def C_def)
  have "(A = C) = (drop_bit 8 n AND 0xF = n AND 0xF)"
    unfolding A_def C_def by (rule scaled_nibble_inj)
  then have "(exec_stores (update_rgb_buffer n x y 0 g) buf =
              exec_stores (update_rgb_buffer n x y 3 g) buf)
            = (iteration_max \<le> n \<or> drop_bit 8 n AND 0xF = n AND 0xF)"
    using False by (auto simp add: e0 e3 list_update_eq_iff[OF len])
  with e0 e3 show ?thesis by blast
qed

theorem scheme0_mirrors_scheme3_witness:
  "0 \<le> i_y_max small_image * 0 + 0
   \<and> i_y_max small_image * 0 + 0 < int (length (image_buffer small_image))
   \<and> (\<exists>b0 b1 b2.
           exec_stores (update_rgb_buffer 1 0 0 3 small_image) (image_buffer small_image) =
             Inr ((image_buffer small_image)[nat (i_y_max small_image * 0 + 0) := (b0, b1, b2)])
         \<and> exec_stores (update_rgb_buffer 1 0 0 0 small_image) (image_buffer small_image) =
             Inr ((image_buffer small_image)[nat (i_y_max small_image * 0 + 0) := (b2, b1, b0)])
         \<and> ((exec_stores (update_rgb_buffer 1 0 0 0 small_image) (image_buffer small_image) =
              exec_stores (update_rgb_buffer 1 0 0 3 small_image) (image_buffer small_image))
            = (iteration_max \<le> 1 \<or> drop_bit 8 (1::int) AND 0xF = 1 AND 0xF)))"
  using scheme0_mirrors_scheme3[of small_image 0 0 "image_buffer small_image" 1]
  by (simp add: small_image_def)

text \<open>
  The claim as stated (the schemes 0 and 3 store the same triple for every iteration
  count) fails at \<open>n = 1\<close>.
\<close>

theorem scheme0_scheme3_counterexample:
  "exec_stores (update_rgb_buffer 1 0 0 0 small_image) (image_buffer small_image) \<noteq>
   exec_stores (update_rgb_buffer 1 0 0 3 small_image) (image_buffer small_image)"
  by (simp add: update_rgb_buffer_def iteration_max_def store3_def small_image_def)

text \<open>
  Claim C5. For every iteration count \<open>n \<ge> 4095\<close> and every colour scheme (in or out of
  \<open>{0, ..., 5}\<close>), \<^verbatim>\<open>update_rgb_buffer\<close> stores \<open>(0, 0, 0)\<close> at the pixel's slot, whatever
  the nibbles of \<open>n\<close> are.
\<close>

theorem update_rgb_buffer_black_at_max:
  assumes "4095 \<le> n" "0 \<le> i_y_max g * y + x" "i_y_max g * y + x < int (length buf)"
  shows "exec_stores (update_rgb_buffer n x y s g) buf =
           Inr (buf[nat (i_y_max g * y + x) := (0, 0, 0)])"
  using assms by (simp add: update_rgb_buffer_black iteration_max_def exec_store3)

theorem update_rgb_buffer_black_at_max_witness:
  "(4095::int) \<le> 4095 \<and> 0 \<le> i_y_max small_image * 0 + 0
   \<and> i_y_max small_image * 0 + 0 < int (length [(7, 8, 9) :: pixel])
   \<and> exec_stores (update_rgb_buffer 4095 0 0 2 small_image) [(7, 8, 9)] = Inr [(0, 0, 0)]"
  using update_rgb_buffer_black_at_max[of 4095 small_image 0 0 "[(7, 8, 9)]" 2]
  by (simp add: small_image_def)

text \<open>
  Claim C10. A colour scheme outside \<open>{0, 1, 2, 3, 4}\<close>, such as 6 or -1, makes
  \<^verbatim>\<open>update_rgb_buffer\<close> perform exactly the stores of scheme 5, for every iteration count
  and every pixel position: the selector is not rejected.
\<close>

theorem out_of_range_scheme_is_scheme5:
  assumes "s \<notin> {0, 1, 2, 3, 4}"
  shows "update_rgb_buffer n x y s g = update_rgb_buffer n x y 5 g
         \<and> exec_stores (update_rgb_buffer n x y s g) buf =
            exec_stores (update_rgb_buffer n x y 5 g) buf"
  using assms by (simp add: update_rgb_buffer_def Let_def)

theorem out_of_range_scheme_is_scheme5_witness:
  "(6::int) \<notin> {0, 1, 2, 3, 4} \<and> (- 1::int) \<notin> {0, 1, 2, 3, 4}
   \<and> update_rgb_buffer 291 0 0 6 small_image = update_rgb_buffer 291 0 0 5 small_image
   \<and> update_rgb_buffer 291 0 0 (- 1) small_image = update_rgb_buffer 291 0 0 5 small_image
   \<and> exec_stores (update_rgb_buffer 291 0 0 6 small_image) (image_buffer small_image) =
       Inr [(34, 51, 17), (9, 9, 9), (9, 9, 9), (9, 9, 9)]"
  using out_of_range_scheme_is_scheme5[of 6 291 0 0 small_image "image_buffer small_image"]
    out_of_range_scheme_is_scheme5[of "- 1" 291 0 0 small_image "image_buffer small_image"]
  by (simp add: update_rgb_buffer_def iteration_max_def store3_def small_image_def)


section \<open>The escape-time evaluator\<close>

declare escape_loop.simps [simp del]

lemma spec_step_eq: "spec_step ops cx cy z = escape_step ops cx cy z"
  by (cases z) (simp add: Let_def)

lemma orbit_funpow: "orbit ops cx cy k = (escape_step ops cx cy ^^ k) (d_zero ops, d_zero ops, d_zero ops, d_zero ops)"
  by (induction k) (simp_all add: spec_step_eq)

lemma escape_loop_bounds:
  "iteration \<le> escape_loop ops c_x c_y iteration z \<and>
   (iteration \<le> iteration_max \<longrightarrow> escape_loop ops c_x c_y iteration z \<le> iteration_max)"
proof (induction ops c_x c_y iteration z rule: escape_loop.induct)
  case (1 ops c_x c_y iteration z)
  show ?case
  proof (cases "iteration < iteration_max \<and> inside_radius ops z")
    case True
    with 1 show ?thesis by (subst (1 2) escape_loop.simps) auto
  next
    case False
    then show ?thesis by (subst (1 2) escape_loop.simps) auto
  qed
qed

lemma escape_loop_inside:
  "int k + iteration < escape_loop ops c_x c_y iteration z \<Longrightarrow>
   inside_radius ops ((escape_step ops c_x c_y ^^ k) z)"
proof (induction ops c_x c_y iteration z arbitrary: k rule: escape_loop.induct)
  case (1 ops c_x c_y iteration z)
  show ?case
  proof (cases "iteration < iteration_max \<and> inside_radius ops z")
    case True
    show ?thesis
    proof (cases k)
      case 0
      with True show ?thesis by simp
    next
      case (Suc j)
      have "int j + (iteration + 1) < escape_loop ops c_x c_y (iteration + 1) (escape_step ops c_x c_y z)"
        using "1.prems" True Suc by (subst (asm) escape_loop.simps) simp
      from "1.IH"[OF True this] show ?thesis
        by (simp add: Suc funpow_swap1)
    qed
  next
    case False
    then have "escape_loop ops c_x c_y iteration z = iteration"
      by (subst escape_loop.simps) auto
    with "1.prems" show ?thesis by simp
  qed
qed

lemma escape_loop_exit:
  "iteration \<le> iteration_max \<Longrightarrow> escape_loop ops c_x c_y iteration z < iteration_max \<Longrightarrow>
   \<not> inside_radius ops ((escape_step ops c_x c_y ^^ nat (escape_loop ops c_x c_y iteration z - iteration)) z)"
proof (induction ops c_x c_y iteration z rule: escape_loop.induct)
  case (1 ops c_x c_y iteration z)
  show ?case
  proof (cases "iteration < iteration_max \<and> inside_radius ops z")
    case True
    have eq: "escape_loop ops c_x c_y iteration z =
              escape_loop ops c_x c_y (iteration + 1) (escape_step ops c_x c_y z)"
      using True by (subst escape_loop.simps) simp
    have ge: "iteration + 1 \<le> escape_loop ops c_x c_y (iteration + 1) (escape_step ops c_x c_y z)"
      by (rule escape_loop_bounds[THEN conjunct1])
    have "\<not> inside_radius ops ((escape_step ops c_x c_y ^^
             nat (escape_loop ops c_x c_y (iteration + 1) (escape_step ops c_x c_y z) - (iteration + 1)))
             (escape_step ops c_x c_y z))"
      using "1.IH"[OF True] True "1.prems" eq by simp
    moreover have "nat (escape_loop ops c_x c_y iteration z - iteration) =
        Suc (nat (escape_loop ops c_x c_y (iteration + 1) (escape_step ops c_x c_y z) - (iteration + 1)))"
      using eq ge by simp
    ultimately show ?thesis by (simp add: funpow_swap1)
  next
    case False
    then have eq: "escape_loop ops c_x c_y iteration z = iteration"
      by (subst escape_loop.simps) auto
    with False "1.prems" show ?thesis by auto
  qed
qed

lemma escape_loop_fixed_point:
  "escape_step ops c_x c_y z = z \<Longrightarrow> inside_radius ops z \<Longrightarrow> iteration \<le> iteration_max \<Longrightarrow>
   escape_loop ops c_x c_y iteration z = iteration_max"
proof (induction ops c_x c_y iteration z rule: escape_loop.induct)
  case (1 ops c_x c_y iteration z)
  show ?case
  proof (cases "iteration < iteration_max")
    case True
    with 1 show ?thesis by (subst escape_loop.simps) simp
  next
    case False
    with "1.prems" show ?thesis by (subst escape_loop.simps) simp
  qed
qed

lemma escape_time_range:
  "0 \<le> escape_time ops c_x c_y \<and> escape_time ops c_x c_y \<le> iteration_max"
  using escape_loop_bounds[of 0 ops c_x c_y "(d_zero ops, d_zero ops, d_zero ops, d_zero ops)"]
  by (simp add: escape_time_def iteration_max_def)

lemma escape_time_first_step:
  assumes "d_lt ops (d_add ops (d_zero ops) (d_zero ops)) (d_of_int ops 4)"
  shows "escape_time ops c_x c_y =
         escape_loop ops c_x c_y 1
           (escape_step ops c_x c_y (d_zero ops, d_zero ops, d_zero ops, d_zero ops))"
  unfolding escape_time_def using assms
  by (subst escape_loop.simps) (simp add: iteration_max_def)

text \<open>
  Claim C9. The iteration count that the escape-time loop returns lies in
  \<open>[1, iteration_max]\<close> for every plane point, and is never 0: the loop starts from
  \<open>z_x_squared = z_y_squared = 0.0\<close>, and \<open>0.0 + 0.0 < 4\<close> (the hypothesis, a fact of the
  arithmetic) lets the first iteration complete.
\<close>

theorem escape_time_at_least_one:
  assumes "d_lt ops (d_add ops (d_zero ops) (d_zero ops)) (d_of_int ops 4)"
  shows "1 \<le> escape_time ops c_x c_y \<and> escape_time ops c_x c_y \<le> iteration_max
         \<and> escape_time ops c_x c_y \<noteq> 0"
proof -
  have "1 \<le> escape_time ops c_x c_y"
    unfolding escape_time_first_step[OF assms] by (rule escape_loop_bounds[THEN conjunct1])
  with escape_time_range[of ops c_x c_y] show ?thesis by simp
qed

lemma exact_addD:
  "exact_on_small_naturals ops \<Longrightarrow> 0 \<le> i \<Longrightarrow> i \<le> 8 \<Longrightarrow> 0 \<le> j \<Longrightarrow> j \<le> 8 \<Longrightarrow>
   d_add ops (d_of_int ops i) (d_of_int ops j) = d_of_int ops (i + j)"
  by (simp add: exact_on_small_naturals_def)

lemma exact_subD:
  "exact_on_small_naturals ops \<Longrightarrow> 0 \<le> j \<Longrightarrow> j \<le> i \<Longrightarrow> i \<le> 8 \<Longrightarrow>
   d_sub ops (d_of_int ops i) (d_of_int ops j) = d_of_int ops (i - j)"
  by (simp add: exact_on_small_naturals_def)

lemma exact_mulD:
  "exact_on_small_naturals ops \<Longrightarrow> 0 \<le> i \<Longrightarrow> i \<le> 8 \<Longrightarrow> 0 \<le> j \<Longrightarrow> j \<le> 8 \<Longrightarrow>
   d_mul ops (d_of_int ops i) (d_of_int ops j) = d_of_int ops (i * j)"
  by (simp add: exact_on_small_naturals_def)

lemma exact_ltD:
  "exact_on_small_naturals ops \<Longrightarrow> 0 \<le> i \<Longrightarrow> i \<le> 8 \<Longrightarrow> 0 \<le> j \<Longrightarrow> j \<le> 8 \<Longrightarrow>
   d_lt ops (d_of_int ops i) (d_of_int ops j) = (i < j)"
  by (simp add: exact_on_small_naturals_def)

lemma exact_zeroD: "exact_on_small_naturals ops \<Longrightarrow> d_zero ops = d_of_int ops 0"
  by (simp add: exact_on_small_naturals_def)

lemma escape_time_origin:
  assumes "exact_on_small_naturals ops"
  shows "escape_time ops (d_of_int ops 0) (d_of_int ops 0) = iteration_max"
  unfolding escape_time_def
  by (rule escape_loop_fixed_point)
     (simp_all add: exact_zeroD[OF assms] exact_addD[OF assms] exact_subD[OF assms]
        exact_mulD[OF assms] exact_ltD[OF assms] Let_def iteration_max_def)

lemma escape_time_two_two:
  assumes "exact_on_small_naturals ops"
  shows "escape_time ops (d_of_int ops 2) (d_of_int ops 2) = 1"
proof -
  have first: "d_lt ops (d_add ops (d_zero ops) (d_zero ops)) (d_of_int ops 4)"
    by (simp add: exact_zeroD[OF assms] exact_addD[OF assms] exact_ltD[OF assms])
  show ?thesis
    unfolding escape_time_first_step[OF first]
    by (subst escape_loop.simps)
       (simp add: exact_zeroD[OF assms] exact_addD[OF assms] exact_subD[OF assms]
          exact_mulD[OF assms] exact_ltD[OF assms] Let_def)
qed

lemma real_orbit_complex:
  "orbit real_ops (Re c) (Im c) k =
     (let z = ((\<lambda>z. z * z + c) ^^ k) 0 in (Re z, Im z, Re z * Re z, Im z * Im z))"
  by (induction k) (simp_all add: Let_def real_ops_def mult.commute mult.left_commute)

lemma real_inside_radius:
  "inside_radius real_ops (Re z, Im z, Re z * Re z, Im z * Im z) = (cmod z < 2)"
proof -
  have "(cmod z < 2) = (sqrt ((Re z)\<^sup>2 + (Im z)\<^sup>2) < sqrt 4)"
    by (simp add: cmod_def)
  also have "\<dots> = ((Re z)\<^sup>2 + (Im z)\<^sup>2 < 4)"
    by (rule real_sqrt_less_iff)
  finally show ?thesis by (simp add: real_ops_def power2_eq_square)
qed

lemma exact_real_ops: "exact_on_small_naturals real_ops"
  by (simp add: exact_on_small_naturals_def real_ops_def)

text \<open>
  Claim C7. For every plane point \<open>(cx, cy)\<close> the loop returns the number \<open>n\<close> of completed
  iterations of the specification's recurrence: \<open>0 \<le> n \<le> iteration_max = 4095\<close>, the
  state after each \<open>k < n\<close> iterations is inside the radius (\<open>zx\<^sup>2 + zy\<^sup>2 < 4\<close>, so the loop
  did not stop earlier), and when \<open>n < iteration_max\<close> the state after \<open>n\<close> iterations is
  not (the loop stopped because \<open>zx\<^sup>2 + zy\<^sup>2 < 4\<close> failed). Where sums, products,
  non-negative differences and comparisons of the integers from 0 to 8 are exact, as
  they are in IEEE binary64, the point \<open>(0, 0)\<close> returns \<open>iteration_max\<close> and the point
  \<open>(2, 2)\<close> returns 1. In exact real arithmetic the states are those of \<open>z \<leftarrow> z * z + c\<close> on the complex numbers,
  with \<open>zx\<^sup>2\<close> and \<open>zy\<^sup>2\<close> the squares of the real and the imaginary part, and being
  inside the radius is \<open>|z| < 2\<close>.
\<close>

theorem escape_time_characterisation:
  "(0 \<le> escape_time ops cx cy \<and> escape_time ops cx cy \<le> iteration_max \<and> iteration_max = 4095
    \<and> (\<forall>k. int k < escape_time ops cx cy \<longrightarrow> inside_radius ops (orbit ops cx cy k))
    \<and> (escape_time ops cx cy < iteration_max \<longrightarrow>
         \<not> inside_radius ops (orbit ops cx cy (nat (escape_time ops cx cy)))))
   \<and> (exact_on_small_naturals ops \<longrightarrow>
         escape_time ops (d_of_int ops 0) (d_of_int ops 0) = iteration_max
       \<and> escape_time ops (d_of_int ops 2) (d_of_int ops 2) = 1)
   \<and> (\<forall>c k. orbit real_ops (Re c) (Im c) k =
               (let z = ((\<lambda>z. z * z + c) ^^ k) 0 in (Re z, Im z, Re z * Re z, Im z * Im z))
            \<and> inside_radius real_ops (orbit real_ops (Re c) (Im c) k) =
               (cmod (((\<lambda>z. z * z + c) ^^ k) 0) < 2))"
proof -
  let ?z0 = "(d_zero ops, d_zero ops, d_zero ops, d_zero ops)"
  have inside: "inside_radius ops (orbit ops cx cy k)" if "int k < escape_time ops cx cy" for k
    using escape_loop_inside[of k 0 ops cx cy ?z0] that
    by (simp add: escape_time_def orbit_funpow)
  have exit: "\<not> inside_radius ops (orbit ops cx cy (nat (escape_time ops cx cy)))"
    if "escape_time ops cx cy < iteration_max"
    using escape_loop_exit[of 0 ops cx cy ?z0] that
    by (simp add: escape_time_def orbit_funpow iteration_max_def)
  have radius: "inside_radius real_ops (orbit real_ops (Re c) (Im c) k) =
               (cmod (((\<lambda>z. z * z + c) ^^ k) 0) < 2)" for c k
    by (simp only: real_orbit_complex Let_def real_inside_radius)
  have small: "exact_on_small_naturals ops \<longrightarrow>
         escape_time ops (d_of_int ops 0) (d_of_int ops 0) = iteration_max
       \<and> escape_time ops (d_of_int ops 2) (d_of_int ops 2) = 1"
    using escape_time_origin[of ops] escape_time_two_two[of ops] by blast
  have max: "iteration_max = 4095" by (simp add: iteration_max_def)
  from escape_time_range[of ops cx cy] inside exit small max real_orbit_complex radius
  show ?thesis by blast
qed

theorem escape_time_characterisation_witness:
  "exact_on_small_naturals real_ops
   \<and> escape_time real_ops 2 2 = 1
   \<and> inside_radius real_ops (orbit real_ops 2 2 0)
   \<and> \<not> inside_radius real_ops (orbit real_ops 2 2 1)
   \<and> escape_time real_ops 0 0 = 4095"
  using escape_time_characterisation[of real_ops 2 2] exact_real_ops
  by (simp add: real_ops_def iteration_max_def)

theorem escape_time_at_least_one_witness:
  "d_lt real_ops (d_add real_ops (d_zero real_ops) (d_zero real_ops)) (d_of_int real_ops 4)
   \<and> 1 \<le> escape_time real_ops 3 2 \<and> escape_time real_ops 3 2 \<le> iteration_max
   \<and> escape_time real_ops 3 2 \<noteq> 0"
  using escape_time_at_least_one[of real_ops 3 2]
  by (simp add: real_ops_def)


section \<open>The loops as lists of pixels\<close>

declare pixel_loop.simps [simp del] seq_rows.simps [simp del]

lemma pixel_loop_concat:
  "pixel_loop ops g i_y c_y i_x =
     concat (map (\<lambda>ix. update_rgb_buffer
                 (escape_time ops (d_add ops (c_x_min g) (d_mul ops (d_of_int ops ix) (pixel_width g))) c_y)
                 ix i_y (GLOBAL_SCHEME g) g) [i_x..i_x_max g - 1])"
proof (induction ops g i_y c_y i_x rule: pixel_loop.induct)
  case (1 ops g i_y c_y i_x)
  show ?case
  proof (cases "i_x < i_x_max g")
    case True
    then have "[i_x..i_x_max g - 1] = i_x # [i_x + 1..i_x_max g - 1]"
      by (simp add: upto_rec1)
    with 1 True show ?thesis
      by (subst pixel_loop.simps) (simp add: Let_def)
  next
    case False
    then show ?thesis by (subst pixel_loop.simps) simp
  qed
qed

lemma row_body_concat:
  "row_body ops g iy = concat (map (\<lambda>ix. pixel_stores ops g ix iy) [0..i_x_max g - 1])"
  by (simp add: row_body_def pixel_loop_concat pixel_stores_def plane_point_def Let_def)

lemma seq_rows_concat:
  "seq_rows ops g i_y = concat (map (row_body ops g) [i_y..i_y_max g - 1])"
proof (induction ops g i_y rule: seq_rows.induct)
  case (1 ops g i_y)
  show ?case
  proof (cases "i_y < i_y_max g")
    case True
    then have "[i_y..i_y_max g - 1] = i_y # [i_y + 1..i_y_max g - 1]"
      by (simp add: upto_rec1)
    with 1 True show ?thesis
      by (subst seq_rows.simps) simp
  next
    case False
    then show ?thesis by (subst seq_rows.simps) simp
  qed
qed

text \<open>
  Claim C6. The stores of \<^verbatim>\<open>compute_mandelbrot\<close> are, row by row and pixel by pixel for
  \<open>0 \<le> ix, iy < resolution\<close>, the stores of \<^verbatim>\<open>update_rgb_buffer\<close> for the iteration count of
  the escape-time loop at the pixel's plane point \<open>cx = x_min + ix * pixel_width\<close>,
  \<open>cy = y_min + iy * pixel_height\<close>, where \<open>cy\<close> is replaced by the constant \<^verbatim>\<open>0.0\<close> itself
  (not a computed value near it) whenever \<open>|cy| < pixel_height / 2\<close>.
\<close>

theorem compute_mandelbrot_plane_points:
  "compute_mandelbrot ops g =
     concat (map (\<lambda>iy. concat (map (\<lambda>ix. pixel_stores ops g ix iy) [0..i_x_max g - 1]))
       [0..i_y_max g - 1])"
proof -
  have "row_body ops g =
        (\<lambda>iy. concat (map (\<lambda>ix. pixel_stores ops g ix iy) [0..i_x_max g - 1]))"
    by (rule ext) (rule row_body_concat)
  then show ?thesis
    by (simp add: compute_mandelbrot_def seq_rows_concat)
qed


lemma int32_fits: "fits_int x \<Longrightarrow> int32 x = x"
  by (simp add: fits_int_def int32_def signed_take_bit_int_eq_self)



section \<open>Executing stores\<close>








section \<open>The partition of the rows\<close>







lemma update_rgb_buffer_keys:
  "map store_key (update_rgb_buffer n x y s g) = map (Pair (i_y_max g * y + x)) [0, 1, 2]"
  by (simp add: update_rgb_buffer_def Let_def store3_def store_key_def)

lemma pixel_stores_keys:
  "map store_key (pixel_stores ops g ix iy) = map (Pair (i_y_max g * iy + ix)) [0, 1, 2]"
  by (simp add: pixel_stores_def update_rgb_buffer_keys split: prod.splits)

lemma rows_keys:
  "map store_key (concat (map (row_body ops g) R)) =
   concat (map (\<lambda>iy. concat (map (\<lambda>ix. map (Pair (i_y_max g * iy + ix)) [0, 1, 2])
     [0..i_x_max g - 1])) R)"
  by (simp add: map_concat row_body_concat pixel_stores_keys comp_def)





lemma Bex_upto: "(\<exists>x \<in> {0..n - 1::int}. P x) = (\<exists>x. 0 \<le> x \<and> x < n \<and> P x)"
  by auto

lemma keys_mem:
  "((i, k) \<in> set (concat (map (\<lambda>iy. concat (map (\<lambda>ix. map (Pair ((res::int) * iy + ix)) [0, 1, 2::nat])
     [0..w - 1])) R))) =
   (\<exists>iy \<in> set R. \<exists>ix. 0 \<le> ix \<and> ix < w \<and> i = res * iy + ix \<and> k < 3)"
proof -
  have key: "(i = a \<and> k = 0 \<or> i = a \<and> k = Suc 0 \<or> i = a \<and> k = 2) = (i = a \<and> k < 3)"
    for a :: int
    by auto
  have "((i, k) \<in> set (concat (map (\<lambda>iy. concat (map (\<lambda>ix. map (Pair ((res::int) * iy + ix)) [0, 1, 2::nat])
     [0..w - 1])) R))) = ((\<exists>iy \<in> set R. \<exists>ix \<in> {0..w - 1}. i = res * iy + ix) \<and> k < 3)"
    by (simp add: key)
  also have "\<dots> = (\<exists>iy \<in> set R. \<exists>ix. 0 \<le> ix \<and> ix < w \<and> i = res * iy + ix \<and> k < 3)"
    unfolding Bex_upto by blast
  finally show ?thesis .
qed

lemma rows_keys_mem:
  "((i, k) \<in> store_key ` set (concat (map (row_body ops g) R))) =
   (\<exists>iy \<in> set R. \<exists>ix. 0 \<le> ix \<and> ix < i_x_max g \<and> i = i_y_max g * iy + ix \<and> k < 3)"
proof -
  have "store_key ` set (concat (map (row_body ops g) R)) =
        set (map store_key (concat (map (row_body ops g) R)))" by simp
  then show ?thesis
    by (simp only: rows_keys keys_mem)
qed











section \<open>The threads against the sequential program\<close>




lemma slot_range:
  assumes "0 \<le> iy" "iy < (res::int)" "0 \<le> ix" "ix < res"
  shows "0 \<le> res * iy + ix \<and> res * iy + ix < res * res"
proof -
  have "0 \<le> res * iy" using assms by simp
  moreover have "res * iy \<le> res * (res - 1)"
    using assms by (intro mult_left_mono) simp_all
  then have "res * iy + ix < res * res" using assms by (simp add: algebra_simps)
  ultimately show ?thesis using assms by simp
qed





lemma compute_mandelbrot_in_bounds:
  assumes "i_x_max g = i_y_max g" "int (length buf) = i_y_max g * i_y_max g"
  shows "in_bounds buf (set (compute_mandelbrot ops g))"
  unfolding in_bounds_def
proof
  fix s assume s: "s \<in> set (compute_mandelbrot ops g)"
  from s have "(slot s, chan s) \<in> store_key ` set (concat (map (row_body ops g) [0..i_y_max g - 1]))"
    by (auto simp add: compute_mandelbrot_def seq_rows_concat store_key_def image_iff)
  then obtain iy ix where h: "iy \<in> set [0..i_y_max g - 1]" "0 \<le> ix" "ix < i_x_max g"
      "slot s = i_y_max g * iy + ix" "chan s < 3"
    unfolding rows_keys_mem by blast
  from h(1) have iy: "0 \<le> iy" "iy < i_y_max g" by simp_all
  from slot_range[OF iy h(2)] h(3,4,5) assms
  show "0 \<le> slot s \<and> slot s < int (length buf) \<and> chan s < 3" by simp
qed


text \<open>
  With \<^verbatim>\<open>image_size\<close> up to 46340 (\<open>46340\<^sup>2 = 2147395600 < 2\<^sup>3\<^sup>1 \<le> 46341\<^sup>2\<close>) the buffer size and
  every slot index fit a 32-bit \<^verbatim>\<open>int\<close>, and with \<open>image_size + NUM_THREADS < 2\<^sup>3\<^sup>1\<close> so does
  the row counter of \<^verbatim>\<open>iterate_y\<close>.
\<close>

lemma square_fits:
  assumes "0 \<le> (res::int)" "res \<le> 46340"
  shows "res * res < 2 ^ 31" "fits_int (res * res)"
proof -
  have "res * res \<le> 46340 * 46340" using assms by (intro mult_mono) simp_all
  then show less: "res * res < 2 ^ 31" by simp
  have "- (2 ^ 31) \<le> (0::int)" by simp
  also have "0 \<le> res * res" by simp
  finally show "fits_int (res * res)" using less by (simp only: fits_int_def simp_thms)
qed


lemma initialised_buffer:
  assumes "initialised g" "0 \<le> image_size g" "image_size g \<le> 46340"
  shows "i_x_max g = i_y_max g" "0 \<le> i_y_max g" "i_y_max g = image_size g"
    "image_buffer_size g = image_size g * image_size g"
    "int (length (image_buffer g)) = i_y_max g * i_y_max g"
proof -
  note sq = square_fits[OF assms(2,3)]
  from sq(2) have wrap: "int32 (image_size g * image_size g) = image_size g * image_size g"
    by (rule int32_fits)
  from assms(1) show "i_x_max g = i_y_max g" "i_y_max g = image_size g"
    by (simp_all add: initialised_def)
  with assms(2) show "0 \<le> i_y_max g" by simp
  from assms(1) wrap show size: "image_buffer_size g = image_size g * image_size g"
    by (simp add: initialised_def)
  from assms(1) have "length (image_buffer g) = nat (image_buffer_size g)"
    and "i_y_max g = image_size g"
    by (simp_all add: initialised_def)
  with size show "int (length (image_buffer g)) = i_y_max g * i_y_max g" by simp
qed

lemma compute_mandelbrot_slots_fit:
  assumes "initialised g" "0 \<le> image_size g" "image_size g \<le> 46340"
  shows "image_buffer_size g < 2 ^ 31 \<and>
         (\<forall>s \<in> set (compute_mandelbrot ops g). 0 \<le> slot s \<and> slot s < 2 ^ 31)"
proof -
  note init = initialised_buffer[OF assms]
  from square_fits(1)[OF assms(2,3)] init(4) have small: "image_buffer_size g < 2 ^ 31" by simp
  have "0 \<le> slot s \<and> slot s < 2 ^ 31" if "s \<in> set (compute_mandelbrot ops g)" for s
  proof -
    from compute_mandelbrot_in_bounds[OF init(1,5), of ops] that
    have "0 \<le> slot s" "slot s < int (length (image_buffer g))"
      by (simp_all add: in_bounds_def)
    with init(3,4,5) small show ?thesis by simp
  qed
  with small show ?thesis by blast
qed





section \<open>The two-by-two image\<close>

lemma escape_time_real_origin: "escape_time real_ops 0 0 = 4095"
  using escape_time_origin[OF exact_real_ops] by (simp add: real_ops_def iteration_max_def)

lemma escape_time_real_one:
  assumes "4 \<le> (x * x + y * y :: real)"
  shows "escape_time real_ops x y = 1"
proof -
  have first: "d_lt real_ops (d_add real_ops (d_zero real_ops) (d_zero real_ops)) (d_of_int real_ops 4)"
    by (simp add: real_ops_def)
  show ?thesis
    unfolding escape_time_first_step[OF first] using assms
    by (subst escape_loop.simps) (simp add: real_ops_def Let_def)
qed

lemma real_ops_simps:
  "d_add real_ops x y = x + y" "d_sub real_ops x y = x - y" "d_mul real_ops x y = x * y"
  "d_div real_ops x y = x / y" "d_lt real_ops x y = (x < y)" "d_fabs real_ops x = \<bar>x\<bar>"
  "d_of_int real_ops i = of_int i" "d_zero real_ops = 0"
  by (simp_all add: real_ops_def)

lemma small_image_row0:
  "row_body real_ops small_image 0 =
     [Store 0 0 17, Store 0 1 0, Store 0 2 0, Store 1 0 17, Store 1 1 0, Store 1 2 0]"
proof -
  have "pixel_stores real_ops small_image 0 0 = [Store 0 0 17, Store 0 1 0, Store 0 2 0]"
    "pixel_stores real_ops small_image 1 0 = [Store 1 0 17, Store 1 1 0, Store 1 2 0]"
    by (simp_all add: pixel_stores_def plane_point_def small_image_def real_ops_simps
        escape_time_real_one escape_time_real_origin update_rgb_buffer_def iteration_max_def store3_def Let_def)
  then show ?thesis
    by (simp add: row_body_concat) (simp add: small_image_def upto_rec1)
qed

lemma small_image_row1:
  "row_body real_ops small_image 1 =
     [Store 2 0 17, Store 2 1 0, Store 2 2 0, Store 3 0 0, Store 3 1 0, Store 3 2 0]"
proof -
  have "pixel_stores real_ops small_image 0 1 = [Store 2 0 17, Store 2 1 0, Store 2 2 0]"
    "pixel_stores real_ops small_image 1 1 = [Store 3 0 0, Store 3 1 0, Store 3 2 0]"
    by (simp_all add: pixel_stores_def plane_point_def small_image_def real_ops_simps
        escape_time_real_one escape_time_real_origin update_rgb_buffer_def iteration_max_def store3_def Let_def)
  then show ?thesis
    by (simp add: row_body_concat) (simp add: small_image_def upto_rec1)
qed







theorem compute_mandelbrot_plane_points_witness:
  "compute_mandelbrot real_ops small_image =
     [Store 0 0 17, Store 0 1 0, Store 0 2 0, Store 1 0 17, Store 1 1 0, Store 1 2 0,
      Store 2 0 17, Store 2 1 0, Store 2 2 0, Store 3 0 0, Store 3 1 0, Store 3 2 0]
   \<and> plane_point real_ops small_image 1 1 = (0, 0)
   \<and> plane_point real_ops small_image 1 0 = (0, - 2)"
proof -
  have rows: "[0..i_y_max small_image - 1] = [0, 1]"
    by (simp add: small_image_def upto_rec1)
  have "compute_mandelbrot real_ops small_image =
        row_body real_ops small_image 0 @ row_body real_ops small_image 1"
    unfolding compute_mandelbrot_plane_points[of real_ops small_image] rows
    by (simp add: row_body_concat)
  then show ?thesis
    by (simp add: small_image_row0 small_image_row1)
       (simp add: plane_point_def small_image_def real_ops_simps Let_def)
qed

section \<open>Too few arguments\<close>

lemma derive_sizes_initialised:
  "initialised (allocate_image_buffer fresh (derive_sizes ops g))"
  by (simp add: initialised_def allocate_image_buffer_def derive_sizes_def Let_def)

lemma init_seq_initialised:
  "init_seq sc ops argv g0 = Initialised g \<Longrightarrow> initialised (allocate_image_buffer fresh g)"
  by (auto simp add: init_seq_def Let_def derive_sizes_initialised split: if_splits)

lemma init_pth_initialised:
  "init_pth sc ops argv g0 = Initialised g \<Longrightarrow> initialised (allocate_image_buffer fresh g)"
  by (auto simp add: init_pth_def Let_def derive_sizes_initialised split: if_splits)

text \<open>
  Claim C8. With fewer than six command-line arguments (\<^verbatim>\<open>argc < 6\<close>) both programs
  print their usage message and exit with status 0 inside \<^verbatim>\<open>init\<close>: the image buffer is
  not allocated and no store is performed.
\<close>

theorem too_few_arguments:
  assumes "int (length argv) < 6"
  shows "init_seq sc ops argv g = Exited usage_seq 0
       \<and> init_pth sc ops argv g = Exited usage_pth 0
       \<and> main_seq sc ops fresh argv = Outcome usage_seq 0 False [] [] None
       \<and> main_pth sc ops fresh sched argv = Some (Outcome usage_pth 0 False [] [] None)"
  using assms by (simp add: init_seq_def init_pth_def main_seq_def main_pth_def)

theorem too_few_arguments_witness:
  "int (length [''./mandelbrot_pth'', ''-2.5'', ''1.5'', ''-2.0'', ''2.0'']) < 6
   \<and> main_seq no_scanners real_ops (\<lambda>i. (0, 0, 0)) [''./mandelbrot_pth'', ''-2.5'', ''1.5'', ''-2.0'', ''2.0'']
       = Outcome usage_seq 0 False [] [] None
   \<and> main_pth no_scanners real_ops (\<lambda>i. (0, 0, 0)) [] [''./mandelbrot_pth'', ''-2.5'', ''1.5'', ''-2.0'', ''2.0'']
       = Some (Outcome usage_pth 0 False [] [] None)"
  using too_few_arguments[of "[''./mandelbrot_pth'', ''-2.5'', ''1.5'', ''-2.0'', ''2.0'']"
      no_scanners real_ops "initial_globals real_ops" "\<lambda>i. (0, 0, 0)" "[]"]
  by simp

end
